theory Spec2Isabelle
  imports Complex_Main "HOL-Library.AList"
begin

section \<open>Python values and exceptions\<close>

text \<open>
  The code is untyped Python. The values that reach the functions modelled here are
  \<open>None\<close>, booleans, integers, strings and opaque objects (a live logger handle, for
  instance), the last identified by a number.
\<close>

datatype pyval = PNone | PBool bool | PInt int | PStr string | PObj nat

text \<open>Python truthiness, as used by \<open>x or y\<close> and \<open>if x:\<close>.\<close>

fun truthy :: "pyval \<Rightarrow> bool" where
  "truthy PNone = False"
| "truthy (PBool b) = b"
| "truthy (PInt i) = (i \<noteq> 0)"
| "truthy (PStr s) = (s \<noteq> [])"
| "truthy (PObj _) = True"

text \<open>
  A raised exception. \<open>Exception c\<close> is an instance of a class derived from
  \<open>Exception\<close> (described by \<open>c\<close>); \<open>BaseException c\<close> is one that is not
  (\<open>KeyboardInterrupt\<close>, \<open>SystemExit\<close>), which \<open>except Exception\<close> does not catch.
\<close>

datatype pyexc = Exception string | BaseException string

section \<open>backend.py: the Backend handle\<close>

subsection \<open>The world outside the handle\<close>

text \<open>
  Every call that leaves backend.py (allocating a queue, constructing, starting, joining
  or terminating the worker, constructing or joining the sender, closing a queue) is
  recorded in a trace, in the order the calls are made. A queue is identified by the
  position of its allocation in the trace, so two allocations never give the same queue.
\<close>

datatype process_class = Process | BackendThread

datatype event =
    QueueNew
  | WorkerNew process_class
  | WorkerStart
  | WorkerTerminate
  | SenderNew
  | SenderJoin
  | WorkerJoin
  | QueueClose nat

text \<open>
  The entry module \<open>sys.modules["__main__"]\<close>: \<open>spec_name\<close> is \<open>None\<close> when the
  module has no \<open>__spec__\<close> (or it is \<open>None\<close>), \<open>Some None\<close> when the spec has no
  name, \<open>Some (Some n)\<close> otherwise; \<open>m_file\<close> is the \<open>__file__\<close> attribute.
\<close>

record main_module =
  spec_name :: "string option option"
  m_file :: "string option"

record sys =
  trace :: "event list"
  main_mod :: main_module

text \<open>
  What the outside does is not decided by backend.py: \<open>raises w n\<close> is the exception
  raised by the \<open>n\<close>-th outside call (\<open>None\<close> when it returns), and \<open>spawn_pid w n\<close> the
  process id the operating system gives to a process started by the \<open>n\<close>-th call.
\<close>

record world =
  raises :: "nat \<Rightarrow> pyexc option"
  spawn_pid :: "nat \<Rightarrow> nat"

definition ext_call :: "world \<Rightarrow> event \<Rightarrow> sys \<Rightarrow> (pyexc + unit) \<times> sys" where
  "ext_call w ev s =
     ((case raises w (length (trace s)) of None \<Rightarrow> Inr () | Some e \<Rightarrow> Inl e),
      s\<lparr>trace := trace s @ [ev]\<rparr>)"

subsection \<open>The worker object and the handle\<close>

text \<open>
  The object built by \<open>process_class(target=wandb_internal, kwargs=...)\<close>. For
  \<open>BackendThread\<close> the constructor of the source sets \<open>daemon = True\<close> and \<open>pid = 0\<close>;
  for a multiprocessing process \<open>pid\<close> is \<open>None\<close> until the process is started and the
  code leaves \<open>daemon\<close> alone.
\<close>

record worker =
  w_class :: process_class
  w_target :: string
  w_settings :: "string \<rightharpoonup> pyval"
  w_record_q :: nat
  w_result_q :: nat
  w_name :: "string option"
  daemon :: "bool option"
  pid :: "nat option"

record sender =
  s_process :: process_class
  s_record_q :: nat
  s_result_q :: nat

record backend =
  p_done :: bool
  record_q :: "nat option"
  result_q :: "nat option"
  wandb_process :: "worker option"
  interface :: "sender option"
  p_internal_pid :: "nat option"

text \<open>\<open>Backend.__init__\<close>.\<close>

definition Backend :: backend where
  "Backend = \<lparr>p_done = False, record_q = None, result_q = None, wandb_process = None,
     interface = None, p_internal_pid = None\<rparr>"

definition new_worker :: "process_class \<Rightarrow> (string \<rightharpoonup> pyval) \<Rightarrow> nat \<Rightarrow> nat \<Rightarrow> worker" where
  "new_worker cls st rq sq =
     \<lparr>w_class = cls, w_target = ''wandb_internal'', w_settings = st,
      w_record_q = rq, w_result_q = sq, w_name = None,
      daemon = (case cls of BackendThread \<Rightarrow> Some True | Process \<Rightarrow> None),
      pid = (case cls of BackendThread \<Rightarrow> Some 0 | Process \<Rightarrow> None)\<rparr>"

subsection \<open>ensure_launched\<close>

definition DEBUG :: int where
  "DEBUG = 10"

text \<open>Lines 58 to 65: the configuration that is handed to the worker.\<close>

definition prepare_settings :: "(string \<rightharpoonup> pyval) option \<Rightarrow> pyval \<Rightarrow> (string \<rightharpoonup> pyval)" where
  "prepare_settings settings log_level =
     (let settings1 = (case settings of None \<Rightarrow> Map.empty | Some m \<Rightarrow> m);
          settings2 = settings1(''_log_level'' \<mapsto> (if truthy log_level then log_level else PInt DEBUG))
      in if ''_early_logger'' \<in> dom settings2 then settings2(''_early_logger'' := None)
         else settings2)"

text \<open>
  Lines 82 to 98: the entry module's identity is rewritten before the start call. The
  result is \<open>(save_mod_name, save_mod_path, module)\<close>. \<open>fname\<close> is the path of the
  bundled \<open>mpmain/__main__.py\<close>.
\<close>

definition shim_enter :: "string \<Rightarrow> main_module \<Rightarrow> string option \<times> string option \<times> main_module" where
  "shim_enter fname m =
     (let main_mod_spec = spec_name m;
          main_mod_path = m_file m;
          main_mod_name = (case main_mod_spec of None \<Rightarrow> None | Some n \<Rightarrow> n)
      in case main_mod_name of
           Some n \<Rightarrow> (Some n, None, m\<lparr>spec_name := Some (Some ''wandb.mpmain'')\<rparr>)
         | None \<Rightarrow>
            (case main_mod_path of
               Some p \<Rightarrow> (None, Some p, m\<lparr>m_file := Some fname\<rparr>)
             | None \<Rightarrow> (None, None, m)))"

text \<open>
  Lines 109 to 112: \<open>if save_mod_name: ... elif save_mod_path: ...\<close>. The tests are
  truthiness tests: \<open>None\<close> and the empty string both fail them.
\<close>

definition truthy_str :: "string option \<Rightarrow> bool" where
  "truthy_str x = (case x of None \<Rightarrow> False | Some s \<Rightarrow> s \<noteq> [])"

definition shim_exit :: "string option \<Rightarrow> string option \<Rightarrow> main_module \<Rightarrow> main_module" where
  "shim_exit save_mod_name save_mod_path m =
     (if truthy_str save_mod_name then m\<lparr>spec_name := Some save_mod_name\<rparr>
      else if truthy_str save_mod_path then m\<lparr>m_file := save_mod_path\<rparr>
      else m)"

text \<open>
  \<open>Backend.ensure_launched\<close>. An exception of an outside call leaves the function at
  once, with every assignment made so far kept: the source has no handler. The outside
  calls are, in order: the two queue allocations, the construction of the worker object,
  its start, and the construction of the sender. The two \<open>logger.info\<close> calls change
  nothing that is modelled and are left out.
\<close>

definition ensure_launched ::
  "world \<Rightarrow> string \<Rightarrow> (string \<rightharpoonup> pyval) option \<Rightarrow> pyval \<Rightarrow> sys \<times> backend
     \<Rightarrow> (pyexc + unit) \<times> sys \<times> backend" where
  "ensure_launched w fname settings log_level sb =
    (let (s, b) = sb;
         settings' = prepare_settings settings log_level;
         rq = length (trace s);
         (r1, s1) = ext_call w QueueNew s
     in case r1 of Inl e \<Rightarrow> (Inl e, s1, b) | Inr _ \<Rightarrow>
    (let b1 = b\<lparr>record_q := Some rq\<rparr>;
         sq = length (trace s1);
         (r2, s2) = ext_call w QueueNew s1
     in case r2 of Inl e \<Rightarrow> (Inl e, s2, b1) | Inr _ \<Rightarrow>
    (let b2 = b1\<lparr>result_q := Some sq\<rparr>;
         cls = (if settings' ''start_method'' \<noteq> Some (PStr ''thread'') then Process
                else BackendThread);
         (r3, s3) = ext_call w (WorkerNew cls) s2
     in case r3 of Inl e \<Rightarrow> (Inl e, s3, b2) | Inr _ \<Rightarrow>
    (let p = (new_worker cls settings' rq sq)\<lparr>w_name := Some ''wandb_internal''\<rparr>;
         b3 = b2\<lparr>wandb_process := Some p\<rparr>;
         (save_mod_name, save_mod_path, m') = shim_enter fname (main_mod s3);
         s4 = s3\<lparr>main_mod := m'\<rparr>;
         n = length (trace s4);
         (r4, s5) = ext_call w WorkerStart s4
     in case r4 of Inl e \<Rightarrow> (Inl e, s5, b3) | Inr _ \<Rightarrow>
    (let p' = (case cls of Process \<Rightarrow> p\<lparr>pid := Some (spawn_pid w n)\<rparr> | BackendThread \<Rightarrow> p);
         b4 = b3\<lparr>wandb_process := Some p', p_internal_pid := pid p'\<rparr>;
         s6 = s5\<lparr>main_mod := shim_exit save_mod_name save_mod_path (main_mod s5)\<rparr>;
         (r5, s7) = ext_call w SenderNew s6
     in case r5 of Inl e \<Rightarrow> (Inl e, s7, b4) | Inr _ \<Rightarrow>
        (Inr (), s7,
         b4\<lparr>interface := Some \<lparr>s_process = cls, s_record_q = rq, s_result_q = sq\<rparr>\<rparr>))))))"

subsection \<open>cleanup and abort\<close>

text \<open>
  \<open>Backend.cleanup\<close>. A method call on an attribute that is still \<open>None\<close> raises
  \<open>AttributeError\<close>.
\<close>

definition cleanup :: "world \<Rightarrow> sys \<times> backend \<Rightarrow> (pyexc + unit) \<times> sys \<times> backend" where
  "cleanup w sb =
    (let (s, b) = sb in
     if p_done b then (Inr (), s, b)
     else
      (let b1 = b\<lparr>p_done := True\<rparr> in
       case interface b1 of None \<Rightarrow> (Inl (Exception ''AttributeError''), s, b1) | Some _ \<Rightarrow>
      (let (r1, s1) = ext_call w SenderJoin s in
       case r1 of Inl e \<Rightarrow> (Inl e, s1, b1) | Inr _ \<Rightarrow>
      (case wandb_process b1 of None \<Rightarrow> (Inl (Exception ''AttributeError''), s1, b1) | Some _ \<Rightarrow>
      (let (r2, s2) = ext_call w WorkerJoin s1 in
       case r2 of Inl e \<Rightarrow> (Inl e, s2, b1) | Inr _ \<Rightarrow>
      (case record_q b1 of None \<Rightarrow> (Inl (Exception ''AttributeError''), s2, b1) | Some rq \<Rightarrow>
      (let (r3, s3) = ext_call w (QueueClose rq) s2 in
       case r3 of Inl e \<Rightarrow> (Inl e, s3, b1) | Inr _ \<Rightarrow>
      (case result_q b1 of None \<Rightarrow> (Inl (Exception ''AttributeError''), s3, b1) | Some sq \<Rightarrow>
      (let (r4, s4) = ext_call w (QueueClose sq) s3 in
       case r4 of Inl e \<Rightarrow> (Inl e, s4, b1) | Inr _ \<Rightarrow> (Inr (), s4, b1))))))))))"

text \<open>
  \<open>Backend.abort\<close>. \<open>BackendThread\<close> derives from \<open>threading.Thread\<close> and defines
  \<open>__init__\<close> and \<open>run\<close> only, and a thread has no \<open>terminate\<close> method: for a thread
  worker the attribute lookup raises \<open>AttributeError\<close> before anything else happens.
\<close>

definition abort :: "world \<Rightarrow> sys \<times> backend \<Rightarrow> (pyexc + unit) \<times> sys \<times> backend" where
  "abort w sb =
    (let (s, b) = sb in
     case wandb_process b of
       None \<Rightarrow> (Inl (Exception ''AttributeError''), s, b)
     | Some p \<Rightarrow>
        (case w_class p of
           BackendThread \<Rightarrow> (Inl (Exception ''AttributeError''), s, b)
         | Process \<Rightarrow>
            (let (r, s1) = ext_call w WorkerTerminate s in
             case r of Inl e \<Rightarrow> (Inl e, s1, b) | Inr _ \<Rightarrow> cleanup w (s1, b))))"

text \<open>A caller's sequence of teardown calls; a call that raises does not stop the caller.\<close>

datatype teardown = Cleanup | Abort

fun run_call :: "world \<Rightarrow> teardown \<Rightarrow> sys \<times> backend \<Rightarrow> (pyexc + unit) \<times> sys \<times> backend" where
  "run_call w Cleanup sb = cleanup w sb"
| "run_call w Abort sb = abort w sb"

fun run_calls :: "world \<Rightarrow> teardown list \<Rightarrow> sys \<times> backend \<Rightarrow> sys \<times> backend" where
  "run_calls w [] sb = sb"
| "run_calls w (c # cs) sb = run_calls w cs (snd (run_call w c sb))"

definition is_queue_op :: "event \<Rightarrow> bool" where
  "is_queue_op ev = (case ev of QueueNew \<Rightarrow> True | QueueClose _ \<Rightarrow> True | _ \<Rightarrow> False)"

text \<open>The events a call added to the trace that had \<open>n\<close> events before it.\<close>

definition emitted :: "nat \<Rightarrow> sys \<Rightarrow> event list" where
  "emitted n s = drop n (trace s)"

text \<open>
  The configuration handed to the worker target: the \<open>settings\<close> entry of the keyword
  arguments of the worker recorded on the handle (no configuration when there is no
  worker).
\<close>

definition handed_settings :: "backend \<Rightarrow> (string \<rightharpoonup> pyval)" where
  "handed_settings b = (case wandb_process b of None \<Rightarrow> Map.empty | Some p \<Rightarrow> w_settings p)"

text \<open>Line 69: the class chosen for a configuration.\<close>

definition worker_class :: "(string \<rightharpoonup> pyval) \<Rightarrow> process_class" where
  "worker_class st =
     (if st ''start_method'' \<noteq> Some (PStr ''thread'') then Process else BackendThread)"

text \<open>
  The worker object after a start call that returned, for the launch whose first outside
  call is the \<open>n\<close>-th (the start call is then call \<open>n + 3\<close>).
\<close>

definition started_worker :: "world \<Rightarrow> nat \<Rightarrow> (string \<rightharpoonup> pyval) \<Rightarrow> worker" where
  "started_worker w n st =
     (let p = (new_worker (worker_class st) st n (Suc n))\<lparr>w_name := Some ''wandb_internal''\<rparr>
      in case worker_class st of
           Process \<Rightarrow> p\<lparr>pid := Some (spawn_pid w (n + 3))\<rparr>
         | BackendThread \<Rightarrow> p)"

text \<open>The \<open>k\<close> outside calls from the \<open>n\<close>-th on all return.\<close>

definition calls_ok :: "world \<Rightarrow> nat \<Rightarrow> nat \<Rightarrow> bool" where
  "calls_ok w n k = (\<forall>j<k. raises w (n + j) = None)"

text \<open>The start-mode field of the configuration the caller passes.\<close>

definition start_method :: "(string \<rightharpoonup> pyval) option \<Rightarrow> pyval option" where
  "start_method settings = (case settings of None \<Rightarrow> None | Some m \<Rightarrow> m ''start_method'')"

text \<open>
  The identity that the rewrite saves: the spec name when there is one, else the file
  attribute.
\<close>

definition saved_identity :: "main_module \<Rightarrow> string option" where
  "saved_identity m = (case spec_name m of Some (Some n) \<Rightarrow> Some n | _ \<Rightarrow> m_file m)"

text \<open>The four steps of a teardown, in the order of the source.\<close>

definition teardown_steps :: "nat \<Rightarrow> nat \<Rightarrow> event list" where
  "teardown_steps rq sq = [SenderJoin, WorkerJoin, QueueClose rq, QueueClose sq]"

subsection \<open>Concrete worlds\<close>

definition world_ok :: world where
  "world_ok = \<lparr>raises = (\<lambda>_. None), spawn_pid = (\<lambda>_. 4242)\<rparr>"


text \<open>The start call (the fourth outside call of a launch) fails.\<close>

definition world_start_fails :: world where
  "world_start_fails =
     \<lparr>raises = (\<lambda>n. if n = 3 then Some (Exception ''OSError'') else None),
      spawn_pid = (\<lambda>_. 4242)\<rparr>"

text \<open>A program run as a script: no import spec, a file path.\<close>

definition sys0 :: sys where
  "sys0 = \<lparr>trace = [], main_mod = \<lparr>spec_name = None, m_file = Some ''train.py''\<rparr>\<rparr>"

definition mpmain :: string where
  "mpmain = ''wandb/mpmain/__main__.py''"

definition thread_settings :: "string \<rightharpoonup> pyval" where
  "thread_settings = [''start_method'' \<mapsto> PStr ''thread'']"

definition logger_settings :: "string \<rightharpoonup> pyval" where
  "logger_settings = [''_early_logger'' \<mapsto> PObj 7, ''project'' \<mapsto> PStr ''demo'']"

text \<open>A launch in which nothing fails, from a fresh handle.\<close>

definition launched0 :: "sys \<times> backend" where
  "launched0 = snd (ensure_launched world_ok mpmain None PNone (sys0, Backend))"

section \<open>ipu.py: the IPU metrics source\<close>

subsection \<open>Numbers and dictionaries\<close>

text \<open>
  A metric value is a Python \<open>int\<close> or \<open>float\<close>. A float is named by its exact
  value, a rational; infinities and NaN are left out. What the arithmetic on floats
  returns is decided by the Python runtime, not by ipu.py: it is a parameter of the
  model (see \<open>pyrt\<close> below). Integer arithmetic is exact in Python and is written out.
  A dictionary is an association list in insertion order; \<open>map_of\<close> looks a key up and
  \<open>AList.update\<close> is the assignment \<open>d[k] = v\<close>.
\<close>

datatype pynum = PyInt int | PyFloat rat

fun num_val :: "pynum \<Rightarrow> rat" where
  "num_val (PyInt i) = of_int i"
| "num_val (PyFloat x) = x"

type_synonym sample_dict = "(string \<times> pynum) list"

type_synonym device = "(string \<times> string) list"

text \<open>
  The Python runtime, as far as ipu.py uses it. The conversions \<open>int(s)\<close> and
  \<open>float(s)\<close> return \<open>None\<close> for their \<open>ValueError\<close>. The other three fields are the
  binary floating-point arithmetic of line 126:
  \<^item> \<open>py_fsum vals\<close> is the float that \<open>sum(vals)\<close> returns when \<open>vals\<close> holds at least
    one float (how the additions are rounded depends on the Python version);
  \<^item> \<open>py_truediv x n\<close> is the float that \<open>x / n\<close> returns for a number \<open>x\<close> and a
    length \<open>n\<close>;
  \<^item> \<open>py_round x nd\<close> is the float that \<open>round(x, nd)\<close> returns for a float \<open>x\<close>.
  Numbers beyond the range of a double, where these operations raise \<open>OverflowError\<close>,
  are outside the model.
\<close>

record pyrt =
  py_int :: "string \<Rightarrow> int option"
  py_float :: "string \<Rightarrow> rat option"
  py_fsum :: "pynum list \<Rightarrow> rat"
  py_truediv :: "pynum \<Rightarrow> nat \<Rightarrow> rat"
  py_round :: "rat \<Rightarrow> nat \<Rightarrow> rat"


subsection \<open>parse_metric\<close>

definition endswith :: "string \<Rightarrow> string \<Rightarrow> bool" where
  "endswith s suf = (length suf \<le> length s \<and> drop (length s - length suf) s = suf)"

definition metric_suffixes :: "(string \<times> string) list" where
  "metric_suffixes =
     [(''temp'', ''C''), (''clock'', ''MHz''), (''power'', ''W''), (''utilisation'', ''%''),
      (''utilisation (session)'', ''%''), (''speed'', ''GT/s'')]"

text \<open>The loop of lines 72 to 75; \<open>value[:-0]\<close> is the empty string.\<close>

fun strip_suffixes :: "(string \<times> string) list \<Rightarrow> string \<times> string \<Rightarrow> string \<times> string" where
  "strip_suffixes [] kv = kv"
| "strip_suffixes ((metric, suffix) # rest) (key, val) =
     strip_suffixes rest
       (if endswith key metric \<and> endswith val suffix
        then (key @ '' ('' @ suffix @ '')'',
              if length suffix = 0 then [] else take (length val - length suffix) val)
        else (key, val))"

definition parse_metric :: "pyrt \<Rightarrow> string \<Rightarrow> string \<Rightarrow> (string \<times> pynum) option" where
  "parse_metric rt key val =
     (let (key', val') = strip_suffixes metric_suffixes (key, val)
      in case py_float rt val' of
           None \<Rightarrow> None
         | Some float_value \<Rightarrow>
             Some (key', if of_int \<lfloor>float_value\<rfloor> = float_value then PyInt \<lfloor>float_value\<rfloor>
                         else PyFloat float_value))"

subsection \<open>IPUStats\<close>

record ipu_stats =
  samples :: "sample_dict list"
  p_pid :: int
  p_devices_called :: "string set"

definition variable_metric_keys :: "string set" where
  "variable_metric_keys =
     {''average board temp'', ''average die temp'', ''clock'', ''ipu power'',
      ''ipu utilisation'', ''ipu utilisation (session)''}"

text \<open>\<open>self.name.format(device_id, parsed_key)\<close> with \<open>name = "ipu.{}.{}"\<close>.\<close>

definition metric_name :: "string option \<Rightarrow> string \<Rightarrow> string" where
  "metric_name device_id parsed_key =
     ''ipu.'' @ (case device_id of None \<Rightarrow> ''None'' | Some d \<Rightarrow> d) @ ''.'' @ parsed_key"

text \<open>The inner loop of \<open>sample\<close>, lines 102 to 110.\<close>

fun metric_loop ::
  "pyrt \<Rightarrow> bool \<Rightarrow> string option \<Rightarrow> (string \<times> string) list \<Rightarrow> sample_dict \<Rightarrow> sample_dict" where
  "metric_loop rt initial_call device_id [] stats = stats"
| "metric_loop rt initial_call device_id ((key, val) # rest) stats =
     (let log_metric = (initial_call \<or> key \<in> variable_metric_keys)
      in if \<not> log_metric then metric_loop rt initial_call device_id rest stats
         else case parse_metric rt key val of
                None \<Rightarrow> metric_loop rt initial_call device_id rest stats
              | Some (parsed_key, parsed_value) \<Rightarrow>
                  metric_loop rt initial_call device_id rest
                    (AList.update (metric_name device_id parsed_key) parsed_value stats))"

text \<open>
  The outer loop, lines 90 to 110. \<open>int(pid)\<close> raises \<open>ValueError\<close> on a string that is
  no integer. The set of devices already seen is an attribute of the object: what was
  added before an exception stays added.
\<close>

fun device_loop ::
  "pyrt \<Rightarrow> int \<Rightarrow> device list \<Rightarrow> sample_dict \<times> string set
     \<Rightarrow> (pyexc + sample_dict) \<times> string set" where
  "device_loop rt self_pid [] (stats, called) = (Inr stats, called)"
| "device_loop rt self_pid (device_metrics # rest) (stats, called) =
     (case map_of device_metrics ''user process id'' of
        None \<Rightarrow> device_loop rt self_pid rest (stats, called)
      | Some p \<Rightarrow>
         (case py_int rt p of
            None \<Rightarrow> (Inl (Exception ''ValueError''), called)
          | Some i \<Rightarrow>
             if i \<noteq> self_pid then device_loop rt self_pid rest (stats, called)
             else
              (let device_id = map_of device_metrics ''id'';
                   initial_call = (case device_id of None \<Rightarrow> True | Some d \<Rightarrow> d \<notin> called);
                   called' = (case device_id of None \<Rightarrow> called | Some d \<Rightarrow> insert d called)
               in device_loop rt self_pid rest
                    (metric_loop rt initial_call device_id device_metrics stats, called'))))"

text \<open>
  \<open>IPUStats.sample\<close>. \<open>query\<close> is what \<open>self._gc_ipu_info.getDevices()\<close> does: it
  returns the devices or raises. The second component of the state is the list of
  \<open>wandb.termwarn\<close> calls, each with its message and its \<open>repeat\<close> argument.
  \<open>except Exception\<close> catches the instances of \<open>Exception\<close> only.
\<close>

definition sample ::
  "pyrt \<Rightarrow> pyexc + device list \<Rightarrow> ipu_stats \<times> (string \<times> bool) list
     \<Rightarrow> (pyexc + unit) \<times> ipu_stats \<times> (string \<times> bool) list" where
  "sample rt query so =
     (let (st, out) = so;
          (r, called) =
            (case query of
               Inl e \<Rightarrow> (Inl e, p_devices_called st)
             | Inr devices \<Rightarrow> device_loop rt (p_pid st) devices ([], p_devices_called st));
          st1 = st\<lparr>p_devices_called := called\<rparr>
      in case r of
           Inr stats \<Rightarrow> (Inr (), st1\<lparr>samples := samples st1 @ [stats]\<rparr>, out)
         | Inl (Exception c) \<Rightarrow> (Inr (), st1, out @ [(''IPU stats error '' @ c, False)])
         | Inl (BaseException c) \<Rightarrow> (Inl (BaseException c), st1, out))"









text \<open>
  Concrete inputs. The runtime \<open>rt0\<close> computes without rounding error: the exact
  quotient, and the nearest multiple of \<open>10 ** -nd\<close> with a tie going to the even one.
  Binary floating point returns the same wherever these exact results are doubles, as
  they are on the buffers below (20 and 1.5).
\<close>

definition round_half_even :: "rat \<Rightarrow> int" where
  "round_half_even x =
     (let f = \<lfloor>x\<rfloor>; d = x - of_int f
      in if d < 1 / 2 then f else if 1 / 2 < d then f + 1 else if even f then f else f + 1)"

definition exact_round :: "rat \<Rightarrow> nat \<Rightarrow> rat" where
  "exact_round x nd = of_int (round_half_even (x * 10 ^ nd)) / 10 ^ nd"

definition rt0 :: pyrt where
  "rt0 = \<lparr>py_int = (\<lambda>s. if s = ''42'' then Some 42 else None),
          py_float = (\<lambda>s. if s = ''35'' then Some 35 else None),
          py_fsum = (\<lambda>vals. sum_list (map num_val vals)),
          py_truediv = (\<lambda>x n. num_val x / of_nat n),
          py_round = exact_round\<rparr>"

definition ipu0 :: ipu_stats where
  "ipu0 = \<lparr>samples = [], p_pid = 42, p_devices_called = {}\<rparr>"



section \<open>The transport-security flag\<close>

text \<open>
  Modelled from the spec: \<open>wandb.env.ssl_disabled\<close>, which the test
  \<open>test_check_ssl_disabled\<close> calls, is not among the sources. The spec says that the
  flag disables certificate verification when true and that the recognized truthy
  literal is the case-insensitive string "true", all else, the empty string included,
  being false.
\<close>

definition lower_char :: "char \<Rightarrow> char" where
  "lower_char c =
     (let n = (of_char c :: nat) in if 65 \<le> n \<and> n \<le> 90 then char_of (n + 32) else c)"

definition ssl_disabled :: "(string \<rightharpoonup> string) \<Rightarrow> bool" where
  "ssl_disabled env =
     (case env ''WANDB_INSECURE_DISABLE_SSL'' of
        None \<Rightarrow> False
      | Some v \<Rightarrow> map lower_char v = ''true'')"

text \<open>The table of \<open>test_check_ssl_disabled\<close> in test_ssl.py: environment and expectation.\<close>

definition test_check_ssl_disabled_cases :: "((string \<rightharpoonup> string) \<times> bool) list" where
  "test_check_ssl_disabled_cases =
     [(Map.empty, False),
      ([''WANDB_INSECURE_DISABLE_SSL'' \<mapsto> []], False),
      ([''WANDB_INSECURE_DISABLE_SSL'' \<mapsto> ''false''], False),
      ([''WANDB_INSECURE_DISABLE_SSL'' \<mapsto> ''true''], True)]"

section \<open>Properties of the Backend handle\<close>

subsection \<open>ensure_launched, by the first outside call that raises\<close>

lemma ensure_launched_fail0:
  assumes "raises w (length (trace s)) = Some e"
  shows "ensure_launched w f st lv (s, b) = (Inl e, s\<lparr>trace := trace s @ [QueueNew]\<rparr>, b)"
  using assms by (simp add: ensure_launched_def ext_call_def Let_def)

lemma ensure_launched_fail1:
  assumes "raises w (length (trace s)) = None"
    and "raises w (Suc (length (trace s))) = Some e"
  shows "ensure_launched w f st lv (s, b) =
    (Inl e, s\<lparr>trace := trace s @ [QueueNew, QueueNew]\<rparr>,
     b\<lparr>record_q := Some (length (trace s))\<rparr>)"
  using assms by (simp add: ensure_launched_def ext_call_def Let_def)

lemma ensure_launched_fail2:
  assumes "raises w (length (trace s)) = None"
    and "raises w (Suc (length (trace s))) = None"
    and "raises w (Suc (Suc (length (trace s)))) = Some e"
  shows "ensure_launched w f st lv (s, b) =
    (Inl e,
     s\<lparr>trace := trace s @ [QueueNew, QueueNew, WorkerNew (worker_class (prepare_settings st lv))]\<rparr>,
     b\<lparr>record_q := Some (length (trace s)), result_q := Some (Suc (length (trace s)))\<rparr>)"
  using assms by (simp add: ensure_launched_def ext_call_def Let_def worker_class_def)

lemma ensure_launched_fail3:
  assumes "raises w (length (trace s)) = None"
    and "raises w (Suc (length (trace s))) = None"
    and "raises w (Suc (Suc (length (trace s)))) = None"
    and "raises w (Suc (Suc (Suc (length (trace s))))) = Some e"
  shows "ensure_launched w f st lv (s, b) =
    (Inl e,
     s\<lparr>trace := trace s @ [QueueNew, QueueNew, WorkerNew (worker_class (prepare_settings st lv)),
          WorkerStart],
       main_mod := snd (snd (shim_enter f (main_mod s)))\<rparr>,
     b\<lparr>record_q := Some (length (trace s)), result_q := Some (Suc (length (trace s))),
       wandb_process :=
         Some ((new_worker (worker_class (prepare_settings st lv)) (prepare_settings st lv)
           (length (trace s)) (Suc (length (trace s))))\<lparr>w_name := Some ''wandb_internal''\<rparr>)\<rparr>)"
  using assms
  by (simp add: ensure_launched_def ext_call_def Let_def worker_class_def split: prod.splits)

lemma ensure_launched_started:
  assumes "raises w (length (trace s)) = None"
    and "raises w (Suc (length (trace s))) = None"
    and "raises w (Suc (Suc (length (trace s)))) = None"
    and "raises w (Suc (Suc (Suc (length (trace s))))) = None"
    and "ensure_launched w f st lv (s, b) = (r, s', b')"
  shows "r = (case raises w (length (trace s) + 4) of None \<Rightarrow> Inr () | Some e \<Rightarrow> Inl e)"
    and "trace s' = trace s @ [QueueNew, QueueNew,
           WorkerNew (worker_class (prepare_settings st lv)), WorkerStart, SenderNew]"
    and "main_mod s' = (case shim_enter f (main_mod s) of (a, c, m) \<Rightarrow> shim_exit a c m)"
    and "record_q b' = Some (length (trace s))"
    and "result_q b' = Some (Suc (length (trace s)))"
    and "wandb_process b' = Some (started_worker w (length (trace s)) (prepare_settings st lv))"
    and "p_internal_pid b' = pid (started_worker w (length (trace s)) (prepare_settings st lv))"
    and "p_done b' = p_done b"
    and "interface b' =
           (case raises w (length (trace s) + 4) of
              None \<Rightarrow> Some \<lparr>s_process = worker_class (prepare_settings st lv),
                        s_record_q = length (trace s), s_result_q = Suc (length (trace s))\<rparr>
            | Some e \<Rightarrow> interface b)"
  using assms
  by (auto simp add: ensure_launched_def ext_call_def Let_def worker_class_def
      started_worker_def eval_nat_numeral
      split: prod.splits option.splits process_class.splits)

lemma calls_ok_Suc: "calls_ok w n (Suc k) \<longleftrightarrow> calls_ok w n k \<and> raises w (n + k) = None"
  by (auto simp: calls_ok_def less_Suc_eq)

lemma calls_ok_0: "calls_ok w n 0"
  by (simp add: calls_ok_def)

lemma calls_ok_3:
  "calls_ok w n 3 \<longleftrightarrow>
     raises w n = None \<and> raises w (Suc n) = None \<and> raises w (Suc (Suc n)) = None"
  by (simp add: eval_nat_numeral calls_ok_Suc calls_ok_0)

lemma calls_ok_4:
  "calls_ok w n 4 \<longleftrightarrow>
     raises w n = None \<and> raises w (Suc n) = None \<and> raises w (Suc (Suc n)) = None
       \<and> raises w (Suc (Suc (Suc n))) = None"
  by (simp add: eval_nat_numeral calls_ok_Suc calls_ok_0)

lemma shim_roundtrip:
  assumes "saved_identity m \<noteq> Some []"
  shows "(case shim_enter f m of (a, c, m') \<Rightarrow> shim_exit a c m') = m"
  using assms
  by (auto simp: saved_identity_def shim_enter_def shim_exit_def truthy_str_def Let_def
      split: option.splits)

lemma prepare_settings_early_logger: "prepare_settings st lv ''_early_logger'' = None"
  by (auto simp: prepare_settings_def Let_def)

lemma prepare_settings_log_level:
  "prepare_settings st lv ''_log_level'' = Some (if truthy lv then lv else PInt DEBUG)"
  by (simp add: prepare_settings_def Let_def)

lemma prepare_settings_start_method:
  "prepare_settings st lv ''start_method'' = start_method st"
  by (simp add: prepare_settings_def start_method_def Let_def split: option.splits)

lemma started_worker_settings: "w_settings (started_worker w n st) = st"
  by (simp add: started_worker_def new_worker_def Let_def split: process_class.splits)

subsection \<open>cleanup and abort\<close>

lemma cleanup_when_done: "p_done b \<Longrightarrow> cleanup w (s, b) = (Inr (), s, b)"
  by (simp add: cleanup_def)

lemma cleanup_handle: "cleanup w (s, b) = (r, s', b') \<Longrightarrow> b' = b\<lparr>p_done := True\<rparr>"
  by (auto simp: cleanup_def ext_call_def Let_def split: if_splits option.splits)

lemma cleanup_completed:
  assumes "\<not> p_done b" and "record_q b = Some rq" and "result_q b = Some sq"
    and "cleanup w (s, b) = (Inr (), s', b')"
  shows "s' = s\<lparr>trace := trace s @ teardown_steps rq sq\<rparr>"
  using assms
  by (auto simp: cleanup_def ext_call_def Let_def teardown_steps_def
      split: if_splits option.splits)

lemma cleanup_all_return:
  assumes "\<not> p_done b" and "interface b = Some i" and "wandb_process b = Some p"
    and "record_q b = Some rq" and "result_q b = Some sq"
    and "raises w (length (trace s)) = None" and "raises w (Suc (length (trace s))) = None"
    and "raises w (Suc (Suc (length (trace s)))) = None"
    and "raises w (Suc (Suc (Suc (length (trace s))))) = None"
  shows "fst (cleanup w (s, b)) = Inr ()"
  using assms by (simp add: cleanup_def ext_call_def Let_def)

lemma cleanup_prefix:
  assumes "\<not> p_done b" and "interface b = Some i" and "wandb_process b = Some p"
    and "record_q b = Some rq" and "result_q b = Some sq"
    and "cleanup w (s, b) = (r, s', b')"
  shows "\<exists>k. s' = s\<lparr>trace := trace s @ take k (teardown_steps rq sq)\<rparr>"
proof -
  let ?n = "length (trace s)"
  consider (a) "raises w ?n \<noteq> None"
    | (b) "raises w ?n = None" "raises w (Suc ?n) \<noteq> None"
    | (c) "raises w ?n = None" "raises w (Suc ?n) = None" "raises w (Suc (Suc ?n)) \<noteq> None"
    | (d) "raises w ?n = None" "raises w (Suc ?n) = None" "raises w (Suc (Suc ?n)) = None"
    by blast
  then show ?thesis
  proof cases
    case a
    with assms have "s' = s\<lparr>trace := trace s @ take 1 (teardown_steps rq sq)\<rparr>"
      by (auto simp: cleanup_def ext_call_def Let_def teardown_steps_def
          split: if_splits option.splits)
    then show ?thesis by blast
  next
    case b
    with assms have "s' = s\<lparr>trace := trace s @ take 2 (teardown_steps rq sq)\<rparr>"
      by (auto simp: cleanup_def ext_call_def Let_def teardown_steps_def
          split: if_splits option.splits)
    then show ?thesis by blast
  next
    case c
    with assms have "s' = s\<lparr>trace := trace s @ take 3 (teardown_steps rq sq)\<rparr>"
      by (auto simp: cleanup_def ext_call_def Let_def teardown_steps_def
          split: if_splits option.splits)
    then show ?thesis by blast
  next
    case d
    with assms have "s' = s\<lparr>trace := trace s @ take 4 (teardown_steps rq sq)\<rparr>"
      by (auto simp: cleanup_def ext_call_def Let_def teardown_steps_def
          split: if_splits option.splits)
    then show ?thesis by blast
  qed
qed

lemma abort_when_done:
  assumes "p_done b" and "abort w (s, b) = (r, s', b')"
  shows "b' = b \<and> (s' = s \<or> s' = s\<lparr>trace := trace s @ [WorkerTerminate]\<rparr>)"
  using assms
  by (auto simp: abort_def ext_call_def Let_def cleanup_when_done
      split: option.splits process_class.splits)

lemma abort_completed:
  assumes "\<not> p_done b" and "record_q b = Some rq" and "result_q b = Some sq"
    and "abort w (s, b) = (Inr (), s', b')"
  shows "s' = s\<lparr>trace := trace s @ WorkerTerminate # teardown_steps rq sq\<rparr>
    \<and> b' = b\<lparr>p_done := True\<rparr>"
proof -
  from assms(4) obtain p where p: "wandb_process b = Some p" "w_class p = Process"
    and t: "raises w (length (trace s)) = None"
    and c: "cleanup w (s\<lparr>trace := trace s @ [WorkerTerminate]\<rparr>, b) = (Inr (), s', b')"
    by (auto simp: abort_def ext_call_def Let_def split: option.splits process_class.splits)
  from cleanup_completed [OF assms(1-3) c] cleanup_handle [OF c]
  show ?thesis by simp
qed

lemma run_call_when_done:
  assumes "p_done b" and "run_call w c (s, b) = (r, s', b')"
  shows "b' = b \<and> (\<exists>k. s' = s\<lparr>trace := trace s @ replicate k WorkerTerminate\<rparr>)"
proof (cases c)
  case Cleanup
  with assms have "b' = b \<and> s' = s\<lparr>trace := trace s @ replicate 0 WorkerTerminate\<rparr>"
    by (simp add: cleanup_when_done)
  then show ?thesis by blast
next
  case Abort
  with assms have "abort w (s, b) = (r, s', b')" by simp
  from abort_when_done [OF assms(1) this]
  have "b' = b \<and> (s' = s\<lparr>trace := trace s @ replicate 0 WorkerTerminate\<rparr>
      \<or> s' = s\<lparr>trace := trace s @ replicate 1 WorkerTerminate\<rparr>)"
    by auto
  then show ?thesis by blast
qed

lemma run_calls_when_done:
  assumes "p_done b" and "run_calls w cs (s, b) = (s', b')"
  shows "b' = b \<and> (\<exists>k. s' = s\<lparr>trace := trace s @ replicate k WorkerTerminate\<rparr>)"
  using assms
proof (induction cs arbitrary: s s')
  case Nil
  then have "b' = b \<and> s' = s\<lparr>trace := trace s @ replicate 0 WorkerTerminate\<rparr>" by simp
  then show ?case by blast
next
  case (Cons c cs)
  obtain r s1 b1 where rc: "run_call w c (s, b) = (r, s1, b1)"
    by (cases "run_call w c (s, b)") auto
  from run_call_when_done [OF Cons.prems(1) rc] obtain k
    where b1: "b1 = b" and s1: "s1 = s\<lparr>trace := trace s @ replicate k WorkerTerminate\<rparr>"
    by blast
  from Cons.prems(2) rc b1 have "run_calls w cs (s1, b) = (s', b')" by simp
  from Cons.IH [OF Cons.prems(1) this] obtain j
    where "b' = b" and "s' = s1\<lparr>trace := trace s1 @ replicate j WorkerTerminate\<rparr>"
    by blast
  with s1 have "b' = b \<and> s' = s\<lparr>trace := trace s @ replicate (k + j) WorkerTerminate\<rparr>"
    by (simp add: replicate_add)
  then show ?case by blast
qed

lemma run_call_completed:
  assumes "\<not> p_done b" and "record_q b = Some rq" and "result_q b = Some sq"
    and "run_call w c (s, b) = (Inr (), s', b')"
  shows "b' = b\<lparr>p_done := True\<rparr>
    \<and> (\<exists>pre. set pre \<subseteq> {WorkerTerminate} \<and> s' = s\<lparr>trace := trace s @ pre @ teardown_steps rq sq\<rparr>)"
proof (cases c)
  case Cleanup
  with assms have c: "cleanup w (s, b) = (Inr (), s', b')" by simp
  from cleanup_completed [OF assms(1-3) c] cleanup_handle [OF c]
  have "b' = b\<lparr>p_done := True\<rparr> \<and> set [] \<subseteq> {WorkerTerminate}
      \<and> s' = s\<lparr>trace := trace s @ [] @ teardown_steps rq sq\<rparr>"
    by simp
  then show ?thesis by blast
next
  case Abort
  with assms have "abort w (s, b) = (Inr (), s', b')" by simp
  from abort_completed [OF assms(1-3) this]
  have "b' = b\<lparr>p_done := True\<rparr> \<and> set [WorkerTerminate] \<subseteq> {WorkerTerminate}
      \<and> s' = s\<lparr>trace := trace s @ [WorkerTerminate] @ teardown_steps rq sq\<rparr>"
    by simp
  then show ?thesis by blast
qed

lemma filter_queue_op_terminates:
  "set ys \<subseteq> {WorkerTerminate} \<Longrightarrow> filter is_queue_op ys = []"
  by (induction ys) (auto simp: is_queue_op_def)

lemma count_close_terminates:
  "set ys \<subseteq> {WorkerTerminate} \<Longrightarrow> count_list ys (QueueClose q) = 0"
  by (induction ys) auto

lemma count_close_steps:
  "rq \<noteq> sq \<Longrightarrow> count_list (teardown_steps rq sq) (QueueClose rq) = 1
     \<and> count_list (teardown_steps rq sq) (QueueClose sq) = 1"
  by (simp add: teardown_steps_def)

lemma ensure_launched_handed:
  assumes "calls_ok w (length (trace s)) 3"
    and "ensure_launched w f st lv (s, b) = (r, s', b')"
  shows "handed_settings b' = prepare_settings st lv"
proof (cases "raises w (Suc (Suc (Suc (length (trace s)))))")
  case None
  with assms(1) ensure_launched_started(6) [OF _ _ _ _ assms(2)]
  show ?thesis
    by (simp add: calls_ok_3 handed_settings_def started_worker_settings)
next
  case (Some e)
  with assms(1) ensure_launched_fail3 [of w s e f st lv b] assms(2)
  show ?thesis
    by (auto simp: calls_ok_3 handed_settings_def new_worker_def)
qed

lemma launched0_eq:
  "launched0 =
     (\<lparr>trace = [QueueNew, QueueNew, WorkerNew Process, WorkerStart, SenderNew],
       main_mod = \<lparr>spec_name = None, m_file = Some ''train.py''\<rparr>\<rparr>,
      \<lparr>p_done = False, record_q = Some 0, result_q = Some 1,
       wandb_process = Some \<lparr>w_class = Process, w_target = ''wandb_internal'',
         w_settings = [''_log_level'' \<mapsto> PInt 10], w_record_q = 0, w_result_q = 1,
         w_name = Some ''wandb_internal'', daemon = None, pid = Some 4242\<rparr>,
       interface = Some \<lparr>s_process = Process, s_record_q = 0, s_result_q = 1\<rparr>,
       p_internal_pid = Some 4242\<rparr>)"
  by (simp add: launched0_def ensure_launched_def ext_call_def Let_def world_ok_def sys0_def
      Backend_def prepare_settings_def shim_enter_def shim_exit_def truthy_str_def
      new_worker_def mpmain_def DEBUG_def)

lemma torn0_eq:
  "abort world_ok launched0 =
     (Inr (),
      \<lparr>trace = [QueueNew, QueueNew, WorkerNew Process, WorkerStart, SenderNew,
         WorkerTerminate, SenderJoin, WorkerJoin, QueueClose 0, QueueClose 1],
       main_mod = \<lparr>spec_name = None, m_file = Some ''train.py''\<rparr>\<rparr>,
      (snd launched0)\<lparr>p_done := True\<rparr>)"
  by (simp add: launched0_eq abort_def cleanup_def ext_call_def Let_def world_ok_def)

subsection \<open>The claims about the Backend handle\<close>

text \<open>
  C1. Take a handle that has not been torn down, with its two distinct queues, and let a first
  call of \<open>cleanup\<close> or \<open>abort\<close> complete. Then, whatever sequence of \<open>cleanup\<close> and
  \<open>abort\<close> calls follows and whatever the outside does: the done flag is set and stays
  set, the handle is not changed any more, the later calls make no queue operation (all
  they can add to the trace is the terminate call that \<open>abort\<close> makes before it reaches
  \<open>cleanup\<close>), and over the whole sequence \<open>close\<close> is called exactly once on the record
  queue and exactly once on the result queue.
\<close>

theorem teardown_idempotent:
  assumes "\<not> p_done b" and "record_q b = Some rq" and "result_q b = Some sq" and "rq \<noteq> sq"
    and "run_call w c (s, b) = (Inr (), s1, b1)"
    and "run_calls w cs (s1, b1) = (s2, b2)"
  shows "p_done b1 \<and> p_done b2 \<and> b2 = b1
    \<and> filter is_queue_op (emitted (length (trace s1)) s2) = []
    \<and> set (emitted (length (trace s1)) s2) \<subseteq> {WorkerTerminate}
    \<and> count_list (emitted (length (trace s)) s2) (QueueClose rq) = 1
    \<and> count_list (emitted (length (trace s)) s2) (QueueClose sq) = 1"
proof -
  from run_call_completed [OF assms(1-3) assms(5)] obtain pre
    where b1: "b1 = b\<lparr>p_done := True\<rparr>" and pre: "set pre \<subseteq> {WorkerTerminate}"
      and s1: "s1 = s\<lparr>trace := trace s @ pre @ teardown_steps rq sq\<rparr>"
    by blast
  from b1 have d1: "p_done b1" by simp
  from run_calls_when_done [OF d1 assms(6)] obtain k
    where b2: "b2 = b1" and s2: "s2 = s1\<lparr>trace := trace s1 @ replicate k WorkerTerminate\<rparr>"
    by blast
  have later: "emitted (length (trace s1)) s2 = replicate k WorkerTerminate"
    by (simp add: emitted_def s2)
  have whole: "emitted (length (trace s)) s2
      = pre @ teardown_steps rq sq @ replicate k WorkerTerminate"
    by (simp add: emitted_def s2 s1)
  have rep: "set (replicate k WorkerTerminate) \<subseteq> {WorkerTerminate}" by auto
  have c1: "count_list (emitted (length (trace s)) s2) (QueueClose rq) = 1"
    using count_close_steps [OF assms(4)] count_close_terminates [OF pre]
      count_close_terminates [OF rep]
    by (simp add: whole)
  have c2: "count_list (emitted (length (trace s)) s2) (QueueClose sq) = 1"
    using count_close_steps [OF assms(4)] count_close_terminates [OF pre]
      count_close_terminates [OF rep]
    by (simp add: whole)
  from d1 b2 later rep filter_queue_op_terminates [OF rep] c1 c2 show ?thesis by simp
qed

theorem teardown_idempotent_witness:
  "\<not> p_done (snd launched0) \<and> record_q (snd launched0) = Some 0
    \<and> result_q (snd launched0) = Some 1
    \<and> fst (run_call world_ok Abort launched0) = Inr ()
    \<and> p_done (snd (run_calls world_ok [Cleanup, Abort, Cleanup]
          (snd (run_call world_ok Abort launched0))))
    \<and> count_list (emitted 5 (fst (run_calls world_ok [Cleanup, Abort, Cleanup]
          (snd (run_call world_ok Abort launched0))))) (QueueClose 0) = 1
    \<and> count_list (emitted 5 (fst (run_calls world_ok [Cleanup, Abort, Cleanup]
          (snd (run_call world_ok Abort launched0))))) (QueueClose 1) = 1"
proof -
  let ?s = "fst launched0" and ?b = "snd launched0"
  let ?t = "snd (run_call world_ok Abort launched0)"
  let ?a = "run_calls world_ok [Cleanup, Abort, Cleanup] ?t"
  have h1: "\<not> p_done ?b" by (simp add: launched0_eq)
  have h2: "record_q ?b = Some 0" by (simp add: launched0_eq)
  have h3: "result_q ?b = Some 1" by (simp add: launched0_eq)
  have h4: "(0::nat) \<noteq> 1" by simp
  have h5: "run_call world_ok Abort (?s, ?b) = (Inr (), fst ?t, snd ?t)"
    by (simp add: torn0_eq)
  have h6: "run_calls world_ok [Cleanup, Abort, Cleanup] (fst ?t, snd ?t) = (fst ?a, snd ?a)"
    by simp
  have n: "length (trace ?s) = 5" by (simp add: launched0_eq)
  have r: "fst (run_call world_ok Abort launched0) = Inr ()" by (simp add: torn0_eq)
  from teardown_idempotent [OF h1 h2 h3 h4 h5 h6] h1 h2 h3 r n show ?thesis
    by simp
qed

text \<open>
  C2. For a launched handle that has not been torn down, \<open>cleanup\<close> makes its outside
  calls in the order: join the sender interface, join the worker, close the record
  queue, close the result queue. What it adds to the trace is always a prefix of
  that list, so no step is moved before another and none is left out between two that
  are made; when \<open>cleanup\<close> returns normally it is the whole list, and it returns normally
  when none of the four calls raises. (A step that raises ends \<open>cleanup\<close> there.)
\<close>

theorem cleanup_order:
  assumes "\<not> p_done b" and "interface b = Some i" and "wandb_process b = Some p"
    and "record_q b = Some rq" and "result_q b = Some sq"
    and "cleanup w (s, b) = (r, s', b')"
  shows "(\<exists>k. emitted (length (trace s)) s' = take k (teardown_steps rq sq))
    \<and> (r = Inr () \<longrightarrow> emitted (length (trace s)) s' = teardown_steps rq sq)
    \<and> (calls_ok w (length (trace s)) 4 \<longrightarrow> r = Inr ())
    \<and> p_done b'"
proof -
  from cleanup_prefix [OF assms] obtain k
    where "s' = s\<lparr>trace := trace s @ take k (teardown_steps rq sq)\<rparr>" by blast
  then have "emitted (length (trace s)) s' = take k (teardown_steps rq sq)"
    by (simp add: emitted_def)
  then have a: "\<exists>k. emitted (length (trace s)) s' = take k (teardown_steps rq sq)" by blast
  have b: "r = Inr () \<longrightarrow> emitted (length (trace s)) s' = teardown_steps rq sq"
  proof
    assume "r = Inr ()"
    with assms(6) have "cleanup w (s, b) = (Inr (), s', b')" by simp
    from cleanup_completed [OF assms(1) assms(4) assms(5) this]
    show "emitted (length (trace s)) s' = teardown_steps rq sq"
      by (simp add: emitted_def)
  qed
  have c: "calls_ok w (length (trace s)) 4 \<longrightarrow> r = Inr ()"
  proof
    assume "calls_ok w (length (trace s)) 4"
    then have "fst (cleanup w (s, b)) = Inr ()"
      using cleanup_all_return [OF assms(1-5)] by (simp add: calls_ok_4)
    with assms(6) show "r = Inr ()" by simp
  qed
  from cleanup_handle [OF assms(6)] have "p_done b'" by simp
  with a b c show ?thesis by blast
qed

theorem cleanup_order_witness:
  "\<not> p_done (snd launched0) \<and> interface (snd launched0) \<noteq> None
    \<and> wandb_process (snd launched0) \<noteq> None
    \<and> record_q (snd launched0) = Some 0 \<and> result_q (snd launched0) = Some 1
    \<and> calls_ok world_ok 5 4
    \<and> fst (cleanup world_ok launched0) = Inr ()
    \<and> emitted 5 (fst (snd (cleanup world_ok launched0)))
        = [SenderJoin, WorkerJoin, QueueClose 0, QueueClose 1]
    \<and> p_done (snd (snd (cleanup world_ok launched0)))"
proof -
  let ?s = "fst launched0" and ?b = "snd launched0"
  let ?c = "cleanup world_ok (?s, ?b)"
  have h1: "\<not> p_done ?b" by (simp add: launched0_eq)
  have h2: "interface ?b = Some \<lparr>s_process = Process, s_record_q = 0, s_result_q = 1\<rparr>"
    by (simp add: launched0_eq)
  have h3: "wandb_process ?b = Some \<lparr>w_class = Process, w_target = ''wandb_internal'',
         w_settings = [''_log_level'' \<mapsto> PInt 10], w_record_q = 0, w_result_q = 1,
         w_name = Some ''wandb_internal'', daemon = None, pid = Some 4242\<rparr>"
    by (simp add: launched0_eq)
  have h4: "record_q ?b = Some 0" by (simp add: launched0_eq)
  have h5: "result_q ?b = Some 1" by (simp add: launched0_eq)
  have h6: "cleanup world_ok (?s, ?b) = (fst ?c, fst (snd ?c), snd (snd ?c))" by simp
  have n: "length (trace ?s) = 5" by (simp add: launched0_eq)
  have ok: "calls_ok world_ok 5 4" by (simp add: calls_ok_def world_ok_def)
  from cleanup_order [OF h1 h2 h3 h4 h5 h6] h1 h2 h3 h4 h5 n ok show ?thesis
    by (simp add: teardown_steps_def)
qed

text \<open>
  C3, as the claim states it, fails: the restore of lines 109 to 112 is plain code after
  the start call, not a handler. With a script as entry module and a start call that
  raises, \<open>ensure_launched\<close> raises and leaves \<open>__file__\<close> pointing at the bundled
  placeholder.
\<close>

theorem shim_restore_counterexample:
  "fst (ensure_launched world_start_fails mpmain None PNone (sys0, Backend))
      = Inl (Exception ''OSError'')
    \<and> m_file (main_mod sys0) = Some ''train.py''
    \<and> m_file (main_mod (fst (snd
         (ensure_launched world_start_fails mpmain None PNone (sys0, Backend)))))
      = Some ''wandb/mpmain/__main__.py''"
  by (simp add: ensure_launched_def ext_call_def Let_def world_start_fails_def sys0_def
      Backend_def prepare_settings_def shim_enter_def new_worker_def mpmain_def)

text \<open>
  C3, amended. Let the identity that the rewrite saves (the spec name if there is one,
  else the file attribute) not be the empty string. If \<open>ensure_launched\<close> is left before
  the start call (a queue allocation or the worker constructor raised), the entry module
  was never touched. If the start call returns, the entry module is restored to what it
  was, whether or not the sender constructor raises afterwards. If the start call
  raises, \<open>ensure_launched\<close> raises that exception and the entry module keeps the
  rewritten identity.
\<close>

theorem shim_restore_amended:
  assumes "saved_identity (main_mod s) \<noteq> Some []"
    and "ensure_launched w f st lv (s, b) = (r, s', b')"
  shows "(\<not> calls_ok w (length (trace s)) 3 \<longrightarrow> main_mod s' = main_mod s)
    \<and> (calls_ok w (length (trace s)) 4 \<longrightarrow> main_mod s' = main_mod s)
    \<and> (calls_ok w (length (trace s)) 3 \<and> raises w (length (trace s) + 3) = Some e \<longrightarrow>
         r = Inl e \<and> main_mod s' = snd (snd (shim_enter f (main_mod s))))"
proof -
  let ?n = "length (trace s)"
  have a: "\<not> calls_ok w ?n 3 \<longrightarrow> main_mod s' = main_mod s"
  proof
    assume "\<not> calls_ok w ?n 3"
    then consider (q1) e0 where "raises w ?n = Some e0"
      | (q2) e0 where "raises w ?n = None" "raises w (Suc ?n) = Some e0"
      | (q3) e0 where "raises w ?n = None" "raises w (Suc ?n) = None"
          "raises w (Suc (Suc ?n)) = Some e0"
      by (cases "raises w ?n"; cases "raises w (Suc ?n)"; cases "raises w (Suc (Suc ?n))")
        (auto simp: calls_ok_3)
    then show "main_mod s' = main_mod s"
    proof cases
      case q1
      from ensure_launched_fail0 [OF q1, of f st lv b] assms(2) show ?thesis by auto
    next
      case q2
      from ensure_launched_fail1 [OF q2, of f st lv b] assms(2) show ?thesis by auto
    next
      case q3
      from ensure_launched_fail2 [OF q3, of f st lv b] assms(2) show ?thesis by auto
    qed
  qed
  have b: "calls_ok w ?n 4 \<longrightarrow> main_mod s' = main_mod s"
  proof
    assume "calls_ok w ?n 4"
    then have "main_mod s' = (case shim_enter f (main_mod s) of (a, c, m) \<Rightarrow> shim_exit a c m)"
      using ensure_launched_started(3) [OF _ _ _ _ assms(2)] by (simp add: calls_ok_4)
    with shim_roundtrip [OF assms(1)] show "main_mod s' = main_mod s" by simp
  qed
  have c: "calls_ok w ?n 3 \<and> raises w (?n + 3) = Some e \<longrightarrow>
      r = Inl e \<and> main_mod s' = snd (snd (shim_enter f (main_mod s)))"
  proof
    assume h: "calls_ok w ?n 3 \<and> raises w (?n + 3) = Some e"
    then have "raises w (Suc (Suc (Suc ?n))) = Some e" by (simp add: eval_nat_numeral)
    with h ensure_launched_fail3 [of w s e f st lv b] assms(2)
    show "r = Inl e \<and> main_mod s' = snd (snd (shim_enter f (main_mod s)))"
      by (auto simp: calls_ok_3)
  qed
  from a b c show ?thesis by blast
qed

theorem shim_restore_amended_witness:
  "saved_identity (main_mod sys0) \<noteq> Some [] \<and> calls_ok world_ok 0 4
    \<and> main_mod (fst (snd (ensure_launched world_ok mpmain None PNone (sys0, Backend))))
        = main_mod sys0
    \<and> calls_ok world_start_fails 0 3 \<and> raises world_start_fails 3 = Some (Exception ''OSError'')
    \<and> main_mod (fst (snd (ensure_launched world_start_fails mpmain None PNone (sys0, Backend))))
        = snd (snd (shim_enter mpmain (main_mod sys0)))"
proof -
  let ?ok = "ensure_launched world_ok mpmain None PNone (sys0, Backend)"
  let ?bad = "ensure_launched world_start_fails mpmain None PNone (sys0, Backend)"
  have h1: "saved_identity (main_mod sys0) \<noteq> Some []"
    by (simp add: saved_identity_def sys0_def)
  have h2: "?ok = (fst ?ok, fst (snd ?ok), snd (snd ?ok))" by simp
  have h3: "?bad = (fst ?bad, fst (snd ?bad), snd (snd ?bad))" by simp
  have ok: "calls_ok world_ok 0 4" by (simp add: calls_ok_def world_ok_def)
  have bad: "calls_ok world_start_fails 0 3"
    "raises world_start_fails 3 = Some (Exception ''OSError'')"
    by (simp_all add: calls_ok_def world_start_fails_def)
  have n: "length (trace sys0) = 0" by (simp add: sys0_def)
  from shim_restore_amended [OF h1 h2, of "Exception ''OSError''"]
    shim_restore_amended [OF h1 h3, of "Exception ''OSError''"] h1 ok bad n
  show ?thesis by simp
qed




text \<open>
  C5, as the claim states it, fails in its second half: line 59 is
  \<open>log_level or logging.DEBUG\<close>, so a supplied level that is falsy is replaced. With
  \<open>log_level = 0\<close> (\<open>logging.NOTSET\<close>) the worker is handed the level 10.
\<close>

theorem handed_settings_counterexample:
  "handed_settings (snd (snd (ensure_launched world_ok mpmain None (PInt 0) (sys0, Backend))))
      ''_log_level'' = Some (PInt 10)"
  by (simp add: ensure_launched_def ext_call_def Let_def world_ok_def sys0_def
      Backend_def prepare_settings_def shim_enter_def shim_exit_def truthy_str_def
      new_worker_def mpmain_def DEBUG_def handed_settings_def)

text \<open>
  C5, amended. Whenever \<open>ensure_launched\<close> gets as far as constructing the worker, the
  configuration handed to the worker target has no \<open>_early_logger\<close> field, its
  \<open>_log_level\<close> entry is the caller's log level when that is truthy and the default debug
  level 10 otherwise (no level supplied, or a falsy one such as 0), and every other
  field is the caller's.
\<close>

theorem handed_settings_amended:
  assumes "calls_ok w (length (trace s)) 3"
    and "ensure_launched w f st lv (s, b) = (r, s', b')"
  shows "handed_settings b' ''_early_logger'' = None
    \<and> handed_settings b' ''_log_level'' = Some (if truthy lv then lv else PInt DEBUG)
    \<and> (\<forall>k. k \<noteq> ''_early_logger'' \<and> k \<noteq> ''_log_level'' \<longrightarrow>
          handed_settings b' k = (case st of None \<Rightarrow> None | Some m \<Rightarrow> m k))"
proof -
  have h: "handed_settings b' = prepare_settings st lv"
    by (rule ensure_launched_handed [OF assms])
  have "\<forall>k. k \<noteq> ''_early_logger'' \<and> k \<noteq> ''_log_level'' \<longrightarrow>
      prepare_settings st lv k = (case st of None \<Rightarrow> None | Some m \<Rightarrow> m k)"
    by (auto simp: prepare_settings_def Let_def split: option.splits)
  with h prepare_settings_early_logger [of st lv] prepare_settings_log_level [of st lv]
  show ?thesis by simp
qed

theorem handed_settings_amended_witness:
  "calls_ok world_ok 0 3
    \<and> logger_settings ''_early_logger'' = Some (PObj 7)
    \<and> handed_settings (snd (snd (ensure_launched world_ok mpmain (Some logger_settings)
        (PInt 20) (sys0, Backend)))) ''_early_logger'' = None
    \<and> handed_settings (snd (snd (ensure_launched world_ok mpmain (Some logger_settings)
        (PInt 20) (sys0, Backend)))) ''_log_level'' = Some (PInt 20)
    \<and> handed_settings (snd (snd (ensure_launched world_ok mpmain (Some logger_settings)
        (PInt 20) (sys0, Backend)))) ''project'' = Some (PStr ''demo'')"
proof -
  let ?x = "ensure_launched world_ok mpmain (Some logger_settings) (PInt 20) (sys0, Backend)"
  have n: "length (trace sys0) = 0" by (simp add: sys0_def)
  have h1: "calls_ok world_ok (length (trace sys0)) 3"
    by (simp add: calls_ok_def world_ok_def)
  have h2: "?x = (fst ?x, fst (snd ?x), snd (snd ?x))" by simp
  have p: "logger_settings ''project'' = Some (PStr ''demo'')"
    "logger_settings ''_early_logger'' = Some (PObj 7)"
    by (simp_all add: logger_settings_def)
  from handed_settings_amended [OF h1 h2] h1 n p show ?thesis by simp
qed

text \<open>
  C6. Let \<open>ensure_launched\<close> get past the start call, and let the operating system give
  the started process a process id that is not 0. If the start-mode field of the
  caller's configuration is the string "thread", the worker is a \<open>BackendThread\<close> with
  \<open>daemon = True\<close>, and the process id recorded on the handle is 0. For every other
  value of the field, and when the field or the whole configuration is absent, the
  worker is a multiprocessing process, and the process id recorded on the handle is the
  one the operating system gave it, which is not 0.
\<close>

theorem run_mode_selection:
  assumes "calls_ok w (length (trace s)) 4"
    and "spawn_pid w (length (trace s) + 3) \<noteq> 0"
    and "ensure_launched w f st lv (s, b) = (r, s', b')"
  shows "\<exists>p. wandb_process b' = Some p \<and> p_internal_pid b' = pid p
    \<and> (if start_method st = Some (PStr ''thread'')
       then w_class p = BackendThread \<and> daemon p = Some True \<and> pid p = Some 0
       else w_class p = Process \<and> pid p = Some (spawn_pid w (length (trace s) + 3))
            \<and> pid p \<noteq> Some 0)"
proof -
  let ?p = "started_worker w (length (trace s)) (prepare_settings st lv)"
  from assms(1) have ok: "raises w (length (trace s)) = None"
    "raises w (Suc (length (trace s))) = None"
    "raises w (Suc (Suc (length (trace s)))) = None"
    "raises w (Suc (Suc (Suc (length (trace s))))) = None"
    by (simp_all add: calls_ok_4)
  have a: "wandb_process b' = Some ?p"
    by (rule ensure_launched_started(6) [OF ok assms(3)])
  have b: "p_internal_pid b' = pid ?p"
    by (rule ensure_launched_started(7) [OF ok assms(3)])
  have c: "if start_method st = Some (PStr ''thread'')
       then w_class ?p = BackendThread \<and> daemon ?p = Some True \<and> pid ?p = Some 0
       else w_class ?p = Process \<and> pid ?p = Some (spawn_pid w (length (trace s) + 3))
            \<and> pid ?p \<noteq> Some 0"
    using assms(2)
    by (simp add: started_worker_def worker_class_def new_worker_def Let_def
        prepare_settings_start_method)
  from a b c show ?thesis by blast
qed

theorem run_mode_selection_witness:
  "calls_ok world_ok 0 4 \<and> spawn_pid world_ok 3 \<noteq> 0
    \<and> start_method (Some thread_settings) = Some (PStr ''thread'')
    \<and> p_internal_pid (snd (snd (ensure_launched world_ok mpmain (Some thread_settings) PNone
        (sys0, Backend)))) = Some 0
    \<and> start_method None \<noteq> Some (PStr ''thread'')
    \<and> p_internal_pid (snd (snd (ensure_launched world_ok mpmain None PNone
        (sys0, Backend)))) = Some 4242"
proof -
  let ?t = "ensure_launched world_ok mpmain (Some thread_settings) PNone (sys0, Backend)"
  let ?q = "ensure_launched world_ok mpmain None PNone (sys0, Backend)"
  have n: "length (trace sys0) = 0" by (simp add: sys0_def)
  have h1: "calls_ok world_ok (length (trace sys0)) 4"
    by (simp add: calls_ok_def world_ok_def)
  have h2: "spawn_pid world_ok (length (trace sys0) + 3) \<noteq> 0"
    by (simp add: world_ok_def)
  have h3: "?t = (fst ?t, fst (snd ?t), snd (snd ?t))" by simp
  have h4: "?q = (fst ?q, fst (snd ?q), snd (snd ?q))" by simp
  have m: "start_method (Some thread_settings) = Some (PStr ''thread'')"
    "start_method None \<noteq> Some (PStr ''thread'')"
    "spawn_pid world_ok 3 = 4242"
    by (simp_all add: start_method_def thread_settings_def world_ok_def)
  from run_mode_selection [OF h1 h2 h3] run_mode_selection [OF h1 h2 h4] h1 h2 m n
  show ?thesis by auto
qed

section \<open>Properties of the IPU metrics source\<close>














lemma device_loop_no_base:
  "fst (device_loop rt self_pid devices acc) \<noteq> Inl (BaseException c)"
proof (induction devices arbitrary: acc)
  case Nil
  show ?case by (cases acc) simp
next
  case (Cons d ds)
  obtain stats called where acc: "acc = (stats, called)" by (cases acc)
  show ?case
    unfolding acc using Cons.IH
    by (simp add: Let_def split: option.splits)
qed

subsection \<open>The claims about the metrics source\<close>




text \<open>
  C8. Whatever the device query does, returning a list of devices or raising an instance
  of \<open>Exception\<close>, \<open>sample\<close> returns normally. Either it appended one observation to
  the buffer and issued no warning, or it left the buffer as it was and made exactly one
  \<open>termwarn\<close> call with \<open>repeat=False\<close>, which is the rate limiting.
\<close>

theorem sample_never_raises:
  assumes "\<forall>c. query \<noteq> Inl (BaseException c)"
  shows "\<exists>st' out'. sample rt query (st, out) = (Inr (), st', out')
    \<and> ((\<exists>stats. samples st' = samples st @ [stats] \<and> out' = out)
       \<or> (\<exists>c. samples st' = samples st \<and> out' = out @ [(''IPU stats error '' @ c, False)]))"
proof (cases query)
  case (Inl e)
  with assms obtain c where "e = Exception c" by (cases e) auto
  with Inl show ?thesis by (simp add: sample_def)
next
  case (Inr devices)
  obtain r called where dl: "device_loop rt (p_pid st) devices ([], p_devices_called st) = (r, called)"
    by (cases "device_loop rt (p_pid st) devices ([], p_devices_called st)") auto
  show ?thesis
  proof (cases r)
    case (Inr stats)
    with dl \<open>query = Inr devices\<close> show ?thesis by (simp add: sample_def)
  next
    case (Inl e)
    from device_loop_no_base [of rt "p_pid st" devices "([], p_devices_called st)"] dl Inl
    obtain c where "e = Exception c" by (cases e) auto
    with dl Inl \<open>query = Inr devices\<close> show ?thesis by (simp add: sample_def)
  qed
qed

theorem sample_never_raises_witness:
  "(\<forall>c. (Inl (Exception ''device lost'') :: pyexc + device list) \<noteq> Inl (BaseException c))
    \<and> sample rt0 (Inl (Exception ''device lost'')) (ipu0, [])
        = (Inr (), ipu0, [(''IPU stats error device lost'', False)])
    \<and> (\<forall>c. (Inr [[(''user process id'', ''n/a'')]] :: pyexc + device list)
          \<noteq> Inl (BaseException c))
    \<and> sample rt0 (Inr [[(''user process id'', ''n/a'')]]) (ipu0, [])
        = (Inr (), ipu0, [(''IPU stats error ValueError'', False)])"
proof -
  have h1: "\<forall>c. (Inl (Exception ''device lost'') :: pyexc + device list) \<noteq> Inl (BaseException c)"
    by simp
  have h2: "\<forall>c. (Inr [[(''user process id'', ''n/a'')]] :: pyexc + device list)
      \<noteq> Inl (BaseException c)"
    by simp
  have e1: "sample rt0 (Inl (Exception ''device lost'')) (ipu0, [])
        = (Inr (), ipu0, [(''IPU stats error device lost'', False)])"
    by (simp add: sample_def ipu0_def)
  have e2: "sample rt0 (Inr [[(''user process id'', ''n/a'')]]) (ipu0, [])
        = (Inr (), ipu0, [(''IPU stats error ValueError'', False)])"
    by (simp add: sample_def ipu0_def rt0_def)
  from sample_never_raises [OF h1, of rt0 ipu0 "[]"] sample_never_raises [OF h2, of rt0 ipu0 "[]"]
    h1 h2 e1 e2
  show ?thesis by blast
qed



section \<open>Properties of the transport-security flag\<close>

lemma lower_char_cases:
  "lower_char c = (if 65 \<le> (of_char c :: nat) \<and> (of_char c :: nat) \<le> 90
     then char_of ((of_char c :: nat) + 32) else c)"
  by (simp add: lower_char_def Let_def)

text \<open>
  A character is turned into a given lower-case letter exactly by that letter and by the
  character 32 code points below it, its capital.
\<close>

lemma lower_char_eq_iff:
  assumes "97 \<le> (of_char t :: nat)" and "(of_char t :: nat) \<le> 122"
  shows "lower_char c = t \<longleftrightarrow> c = t \<or> (of_char c :: nat) + 32 = of_char t"
proof (cases "65 \<le> (of_char c :: nat) \<and> (of_char c :: nat) \<le> 90")
  case True
  then have lc: "lower_char c = char_of ((of_char c :: nat) + 32)"
    by (simp add: lower_char_cases)
  have ne: "c \<noteq> t" using True assms by auto
  have "char_of ((of_char c :: nat) + 32) = t \<longleftrightarrow> (of_char c :: nat) + 32 = of_char t"
  proof
    assume "char_of ((of_char c :: nat) + 32) = t"
    then have "(of_char t :: nat) = of_char (char_of ((of_char c :: nat) + 32))"
      by simp
    also have "\<dots> = ((of_char c :: nat) + 32) mod 256"
      by (rule of_char_of)
    finally show "(of_char c :: nat) + 32 = of_char t" using True by simp
  next
    assume "(of_char c :: nat) + 32 = of_char t"
    then have "char_of ((of_char c :: nat) + 32) = char_of (of_char t :: nat)" by simp
    then show "char_of ((of_char c :: nat) + 32) = t" by simp
  qed
  with lc ne show ?thesis by simp
next
  case False
  then have lc: "lower_char c = c" by (auto simp: lower_char_cases)
  from False assms have "(of_char c :: nat) + 32 \<noteq> of_char t" by linarith
  with lc show ?thesis by auto
qed

lemma char_eq_code: "c = d \<longleftrightarrow> (of_char c :: nat) = of_char d"
  by simp

lemma lower_char_t: "lower_char c = CHR ''t'' \<longleftrightarrow> c = CHR ''t'' \<or> c = CHR ''T''"
  using lower_char_eq_iff [of "CHR ''t''" c] char_eq_code [of c "CHR ''T''"] by simp

lemma lower_char_r: "lower_char c = CHR ''r'' \<longleftrightarrow> c = CHR ''r'' \<or> c = CHR ''R''"
  using lower_char_eq_iff [of "CHR ''r''" c] char_eq_code [of c "CHR ''R''"] by simp

lemma lower_char_u: "lower_char c = CHR ''u'' \<longleftrightarrow> c = CHR ''u'' \<or> c = CHR ''U''"
  using lower_char_eq_iff [of "CHR ''u''" c] char_eq_code [of c "CHR ''U''"] by simp

lemma lower_char_e: "lower_char c = CHR ''e'' \<longleftrightarrow> c = CHR ''e'' \<or> c = CHR ''E''"
  using lower_char_eq_iff [of "CHR ''e''" c] char_eq_code [of c "CHR ''E''"] by simp

lemma map4:
  "map f v = [w, x, y, z] \<longleftrightarrow> (\<exists>a b c d. v = [a, b, c, d] \<and> f a = w \<and> f b = x \<and> f c = y \<and> f d = z)"
  by (auto simp: map_eq_Cons_conv)

lemma lower_true_iff:
  "map lower_char v = ''true'' \<longleftrightarrow>
     (\<exists>a b c d. v = [a, b, c, d] \<and> a \<in> {CHR ''t'', CHR ''T''} \<and> b \<in> {CHR ''r'', CHR ''R''}
        \<and> c \<in> {CHR ''u'', CHR ''U''} \<and> d \<in> {CHR ''e'', CHR ''E''})"
  unfolding map4 lower_char_t lower_char_r lower_char_u lower_char_e by blast

subsection \<open>The claim about the flag\<close>

text \<open>
  C9. Certificate verification is reported disabled exactly when the flag is set and its
  value is "true" in any mix of upper and lower case: four characters, the first
  \<open>t\<close> or \<open>T\<close>, the second \<open>r\<close> or \<open>R\<close>, the third \<open>u\<close> or \<open>U\<close>, the fourth \<open>e\<close> or
  \<open>E\<close>. Every other value reports false, the empty string and an absent flag among
  them, and the four rows of the test table of test_ssl.py hold.
\<close>

theorem ssl_disabled_iff_true:
  "(ssl_disabled env \<longleftrightarrow>
      (\<exists>a b c d. env ''WANDB_INSECURE_DISABLE_SSL'' = Some [a, b, c, d]
         \<and> a \<in> {CHR ''t'', CHR ''T''} \<and> b \<in> {CHR ''r'', CHR ''R''}
         \<and> c \<in> {CHR ''u'', CHR ''U''} \<and> d \<in> {CHR ''e'', CHR ''E''}))
   \<and> (env ''WANDB_INSECURE_DISABLE_SSL'' = None \<longrightarrow> \<not> ssl_disabled env)
   \<and> (env ''WANDB_INSECURE_DISABLE_SSL'' = Some [] \<longrightarrow> \<not> ssl_disabled env)
   \<and> list_all (\<lambda>(e, expect_disabled). ssl_disabled e = expect_disabled)
        test_check_ssl_disabled_cases"
proof -
  have a: "ssl_disabled env \<longleftrightarrow>
      (\<exists>a b c d. env ''WANDB_INSECURE_DISABLE_SSL'' = Some [a, b, c, d]
         \<and> a \<in> {CHR ''t'', CHR ''T''} \<and> b \<in> {CHR ''r'', CHR ''R''}
         \<and> c \<in> {CHR ''u'', CHR ''U''} \<and> d \<in> {CHR ''e'', CHR ''E''})"
  proof (cases "env ''WANDB_INSECURE_DISABLE_SSL''")
    case None
    then show ?thesis by (simp add: ssl_disabled_def)
  next
    case (Some v)
    then show ?thesis by (simp add: ssl_disabled_def lower_true_iff)
  qed
  have b: "env ''WANDB_INSECURE_DISABLE_SSL'' = None \<longrightarrow> \<not> ssl_disabled env"
    by (simp add: ssl_disabled_def)
  have c: "env ''WANDB_INSECURE_DISABLE_SSL'' = Some [] \<longrightarrow> \<not> ssl_disabled env"
    by (simp add: ssl_disabled_def)
  have d: "list_all (\<lambda>(e, expect_disabled). ssl_disabled e = expect_disabled)
        test_check_ssl_disabled_cases"
    by (simp add: test_check_ssl_disabled_cases_def ssl_disabled_def lower_char_cases)
  from a b c d show ?thesis by blast
qed

theorem ssl_disabled_iff_true_witness:
  "ssl_disabled [''WANDB_INSECURE_DISABLE_SSL'' \<mapsto> ''True'']
    \<and> \<not> ssl_disabled [''WANDB_INSECURE_DISABLE_SSL'' \<mapsto> ''1'']
    \<and> \<not> ssl_disabled [''WANDB_INSECURE_DISABLE_SSL'' \<mapsto> []]
    \<and> \<not> ssl_disabled Map.empty"
proof -
  have "ssl_disabled [''WANDB_INSECURE_DISABLE_SSL'' \<mapsto> ''True'']"
    using ssl_disabled_iff_true [of "[''WANDB_INSECURE_DISABLE_SSL'' \<mapsto> ''True'']"]
    by simp
  moreover have "\<not> ssl_disabled [''WANDB_INSECURE_DISABLE_SSL'' \<mapsto> ''1'']"
    using ssl_disabled_iff_true [of "[''WANDB_INSECURE_DISABLE_SSL'' \<mapsto> ''1'']"]
    by simp
  moreover have "\<not> ssl_disabled [''WANDB_INSECURE_DISABLE_SSL'' \<mapsto> []]"
    using ssl_disabled_iff_true [of "[''WANDB_INSECURE_DISABLE_SSL'' \<mapsto> []]"]
    by simp
  moreover have "\<not> ssl_disabled Map.empty"
    using ssl_disabled_iff_true [of Map.empty]
    by simp
  ultimately show ?thesis by blast
qed

end
